theory Spec2Isabelle
  imports Complex_Main
begin

section \<open>The Python runtime the program relies on\<close>

text \<open>
  The program is MicroPython. Its numbers are modelled as follows: Python integers are
  \<open>int\<close>; a Python float is the \<open>real\<close> number it denotes, so infinities and NaN are
  not part of the model. The arithmetic of the parser and of the unit conversion is
  exact; the operations of the distance function are parameters of the model (see
  \<open>fpu\<close> below), because there rounding decides whether an exception is raised.
  Strings are \<open>string\<close>; NMEA sentences are ASCII, so one character of the model is one
  character of the source.

  Exceptions are values: a computation that may raise returns \<open>exn + 'a\<close>, with \<open>Inl\<close>
  the exception raised.
\<close>

datatype exn = ValueError | IndexError

text \<open>Sequencing of two computations that may raise: the first exception propagates.\<close>

definition and_then :: "exn + 'a \<Rightarrow> ('a \<Rightarrow> exn + 'b) \<Rightarrow> exn + 'b" where
  "and_then m f = (case m of Inl e \<Rightarrow> Inl e | Inr x \<Rightarrow> f x)"

text \<open>\<open>xs[i]\<close> for a non-negative index: IndexError out of range.\<close>

definition index :: "'a list \<Rightarrow> nat \<Rightarrow> exn + 'a" where
  "index xs i = (if i < length xs then Inr (xs ! i) else Inl IndexError)"

text \<open>
  The built-ins \<open>int(s)\<close> and \<open>float(s)\<close> on a string either return a number or raise
  ValueError. The parser below takes them as parameters (\<open>None\<close> is the ValueError), so
  every theorem about the parser holds whatever strings the built-ins accept.
\<close>

type_synonym int_reader = "string \<Rightarrow> int option"
type_synonym float_reader = "string \<Rightarrow> real option"

definition raising :: "'a option \<Rightarrow> exn + 'a" where
  "raising r = (case r of None \<Rightarrow> Inl ValueError | Some v \<Rightarrow> Inr v)"

text \<open>
  Readers of plain decimal literals, used to run the parser on concrete sentences:
  \<open>dec_int\<close> reads a non-empty string of digits, \<open>dec_float\<close> reads digits with an
  optional fractional part, and both reject every other string. The built-ins read
  these literals to the same values; they also accept signs, exponents and surrounding
  blanks, which none of the sentences run below contains.
\<close>

definition digit_val :: "char \<Rightarrow> nat option" where
  "digit_val c =
     (let code = (of_char c :: nat)
      in if 48 \<le> code \<and> code \<le> 57 then Some (code - 48) else None)"

fun digits_val :: "nat \<Rightarrow> string \<Rightarrow> nat option" where
  "digits_val acc [] = Some acc"
| "digits_val acc (c # cs) =
     (case digit_val c of None \<Rightarrow> None | Some d \<Rightarrow> digits_val (10 * acc + d) cs)"

definition dec_int :: int_reader where
  "dec_int s = (if s = [] then None else map_option int (digits_val 0 s))"

definition dec_float :: float_reader where
  "dec_float s =
     (let ip = takeWhile (\<lambda>c. c \<noteq> CHR ''.'') s;
          fp = drop (Suc (length ip)) s
      in if ip = [] \<and> fp = [] then None
         else case digits_val 0 ip of None \<Rightarrow> None
           | Some i \<Rightarrow> (case digits_val 0 fp of None \<Rightarrow> None
               | Some f \<Rightarrow> Some (real i + real f / 10 ^ length fp)))"

text \<open>\<open>s.split(sep)\<close> for a one-character separator: never empty, \<open>''.split(',') == ['']\<close>.\<close>

fun split_str :: "char \<Rightarrow> string \<Rightarrow> string list" where
  "split_str sep [] = [[]]"
| "split_str sep (c # cs) =
     (let r = split_str sep cs
      in if c = sep then [] # r else (c # hd r) # tl r)"

section \<open>gps.py: the NMEA parser and the fix tracker\<close>

record GPS =
  latitude :: "real option"
  longitude :: "real option"
  has_fix :: bool

text \<open>The state \<open>__init__\<close> leaves.\<close>

definition GPS_init :: GPS where
  "GPS_init = \<lparr>latitude = None, longitude = None, has_fix = False\<rparr>"

definition convert_nmea_latitude :: "float_reader \<Rightarrow> string \<Rightarrow> string \<Rightarrow> real option" where
  "convert_nmea_latitude flt nmea_lat direction =
     (if nmea_lat = [] then None
      else case flt (take 2 nmea_lat) of None \<Rightarrow> None
        | Some dd \<Rightarrow> (case flt (drop 2 nmea_lat) of None \<Rightarrow> None
            | Some mm \<Rightarrow>
                (let decimal_degrees = dd + (mm / 60)
                 in Some (if direction = ''S'' then decimal_degrees * (- 1)
                          else decimal_degrees))))"

definition convert_nmea_longitude :: "float_reader \<Rightarrow> string \<Rightarrow> string \<Rightarrow> real option" where
  "convert_nmea_longitude flt nmea_lon direction =
     (if nmea_lon = [] then None
      else case flt (take 3 nmea_lon) of None \<Rightarrow> None
        | Some ddd \<Rightarrow> (case flt (drop 3 nmea_lon) of None \<Rightarrow> None
            | Some mm \<Rightarrow>
                (let decimal_degrees = ddd + (mm / 60)
                 in Some (if direction = ''W'' then decimal_degrees * (- 1)
                          else decimal_degrees))))"

text \<open>The body of the \<open>try\<close> block of the \<open>$GPGGA\<close> branch of \<open>_parse_nmea\<close>.\<close>

definition gpgga_try :: "int_reader \<Rightarrow> float_reader \<Rightarrow> string list \<Rightarrow> GPS \<Rightarrow> exn + GPS" where
  "gpgga_try pint flt parts self =
     and_then (index parts 6) (\<lambda>p6.
     and_then (raising (pint p6)) (\<lambda>fix_status.
       if fix_status \<ge> 1 then
         and_then (index parts 2) (\<lambda>lat_str.
         and_then (index parts 3) (\<lambda>lat_dir.
         and_then (index parts 4) (\<lambda>lon_str.
         and_then (index parts 5) (\<lambda>lon_dir.
           if lat_str \<noteq> [] \<and> lon_str \<noteq> [] then
             Inr (self\<lparr>latitude := convert_nmea_latitude flt lat_str lat_dir,
                       longitude := convert_nmea_longitude flt lon_str lon_dir,
                       has_fix := True\<rparr>)
           else Inr (self\<lparr>has_fix := False, latitude := None, longitude := None\<rparr>)))))
       else Inr (self\<lparr>has_fix := False, latitude := None, longitude := None\<rparr>)))"

text \<open>
  \<open>_parse_nmea\<close>. The \<open>except (ValueError, IndexError)\<close> of the first branch catches
  both exceptions; the \<open>$GPRMC\<close> branch has no handler, so an exception raised there
  would leave the function.
\<close>

definition parse_nmea :: "int_reader \<Rightarrow> float_reader \<Rightarrow> string \<Rightarrow> GPS \<Rightarrow> exn + GPS" where
  "parse_nmea pint flt nmea_sentence self =
     (let parts = split_str CHR '','' nmea_sentence in
      and_then (index parts 0) (\<lambda>p0.
        if p0 = ''$GPGGA'' \<and> length parts \<ge> 10 then
          (case gpgga_try pint flt parts self of
             Inr self' \<Rightarrow> Inr self'
           | Inl ValueError \<Rightarrow>
               Inr (self\<lparr>has_fix := False, latitude := None, longitude := None\<rparr>)
           | Inl IndexError \<Rightarrow>
               Inr (self\<lparr>has_fix := False, latitude := None, longitude := None\<rparr>))
        else if p0 = ''$GPRMC'' \<and> length parts \<ge> 10 then
          and_then (index parts 2) (\<lambda>status.
            if status = ''A'' then
              and_then (index parts 3) (\<lambda>lat_str.
              and_then (index parts 4) (\<lambda>lat_dir.
              and_then (index parts 5) (\<lambda>lon_str.
              and_then (index parts 6) (\<lambda>lon_dir.
                if lat_str \<noteq> [] \<and> lon_str \<noteq> [] then
                  Inr (self\<lparr>latitude := convert_nmea_latitude flt lat_str lat_dir,
                            longitude := convert_nmea_longitude flt lon_str lon_dir,
                            has_fix := True\<rparr>)
                else Inr (self\<lparr>has_fix := False, latitude := None, longitude := None\<rparr>)))))
            else Inr (self\<lparr>has_fix := False, latitude := None, longitude := None\<rparr>))
        else Inr self))"

definition get_coordinates :: "GPS \<Rightarrow> real option \<times> real option" where
  "get_coordinates self =
     (if has_fix self \<and> latitude self \<noteq> None \<and> longitude self \<noteq> None
      then (latitude self, longitude self)
      else (None, None))"

text \<open>The comma-separated fields of a sentence, as \<open>_parse_nmea\<close> splits it.\<close>

abbreviation nmea_fields :: "string \<Rightarrow> string list" where
  "nmea_fields s \<equiv> split_str CHR '','' s"

section \<open>main.py: distance, nearest zone and the decision loop\<close>

text \<open>
  The float operations the distance function uses: what each returns on the finite
  floats it is given. \<open>fl_pow2\<close> is \<open>x ** 2\<close>; \<open>fl_radians\<close>, \<open>fl_sin\<close>, \<open>fl_cos\<close>,
  \<open>fl_sqrt\<close> and \<open>fl_atan2\<close> are the functions of the \<open>math\<close> module on arguments in
  their domain. A theorem stated for every such record holds for the arithmetic of the
  device.
\<close>

record fpu =
  fl_add :: "real \<Rightarrow> real \<Rightarrow> real"
  fl_sub :: "real \<Rightarrow> real \<Rightarrow> real"
  fl_mul :: "real \<Rightarrow> real \<Rightarrow> real"
  fl_div :: "real \<Rightarrow> real \<Rightarrow> real"
  fl_pow2 :: "real \<Rightarrow> real"
  fl_radians :: "real \<Rightarrow> real"
  fl_sin :: "real \<Rightarrow> real"
  fl_cos :: "real \<Rightarrow> real"
  fl_sqrt :: "real \<Rightarrow> real"
  fl_atan2 :: "real \<Rightarrow> real \<Rightarrow> real"

text \<open>The functions \<open>math.radians\<close> and \<open>math.atan2\<close> compute, without rounding.\<close>

definition radians :: "real \<Rightarrow> real" where
  "radians x = x * pi / 180"

definition atan2 :: "real \<Rightarrow> real \<Rightarrow> real" where
  "atan2 y x =
     (if 0 < x then arctan (y / x)
      else if x < 0 \<and> 0 \<le> y then arctan (y / x) + pi
      else if x < 0 then arctan (y / x) - pi
      else if 0 < y then pi / 2
      else if y < 0 then - (pi / 2)
      else 0)"

text \<open>
  Two arithmetics to run the model on. \<open>exact_fpu\<close> does not round. \<open>skewed_fpu\<close>
  differs from it in the cosine alone, which comes out too large by the relative error
  \<open>2 ^ -53\<close>, half a unit in the last place of a binary64 float.
\<close>

definition exact_fpu :: fpu where
  "exact_fpu =
     \<lparr>fl_add = (\<lambda>x y. x + y), fl_sub = (\<lambda>x y. x - y), fl_mul = (\<lambda>x y. x * y),
      fl_div = (\<lambda>x y. x / y), fl_pow2 = (\<lambda>x. x\<^sup>2), fl_radians = radians,
      fl_sin = sin, fl_cos = cos, fl_sqrt = sqrt, fl_atan2 = atan2\<rparr>"

definition skewed_fpu :: fpu where
  "skewed_fpu = exact_fpu\<lparr>fl_cos := (\<lambda>x. cos x * (1 + 1 / 2 ^ 53))\<rparr>"

text \<open>\<open>math.sqrt\<close>: ValueError on a negative argument.\<close>

definition math_sqrt :: "fpu \<Rightarrow> real \<Rightarrow> exn + real" where
  "math_sqrt fl x = (if x < 0 then Inl ValueError else Inr (fl_sqrt fl x))"

definition MAX_DISTANCE_METERS :: real where
  "MAX_DISTANCE_METERS = 150"

definition haversine_distance :: "fpu \<Rightarrow> real \<Rightarrow> real \<Rightarrow> real \<Rightarrow> real \<Rightarrow> exn + real" where
  "haversine_distance fl lat1 lon1 lat2 lon2 =
     (let R = 6371000;
          lat1_rad = fl_radians fl lat1;
          lon1_rad = fl_radians fl lon1;
          lat2_rad = fl_radians fl lat2;
          lon2_rad = fl_radians fl lon2;
          dlon = fl_sub fl lon2_rad lon1_rad;
          dlat = fl_sub fl lat2_rad lat1_rad;
          a = fl_add fl (fl_pow2 fl (fl_sin fl (fl_div fl dlat 2)))
                (fl_mul fl (fl_mul fl (fl_cos fl lat1_rad) (fl_cos fl lat2_rad))
                   (fl_pow2 fl (fl_sin fl (fl_div fl dlon 2))))
      in and_then (math_sqrt fl a) (\<lambda>sqrt_a.
         and_then (math_sqrt fl (fl_sub fl 1 a)) (\<lambda>sqrt_1_a.
           let c = fl_mul fl 2 (fl_atan2 fl sqrt_a sqrt_1_a);
               distance = fl_mul fl R c
           in Inr distance)))"

text \<open>
  One entry of \<open>speed_limits_data['features']\<close>: \<open>geometry.coordinates\<close> is
  \<open>[longitude, latitude]\<close>, \<open>properties.speed_mph\<close> is an integer.
\<close>

record feature =
  coordinates :: "real \<times> real"
  speed_mph :: int

text \<open>
  \<open>distance < min_distance\<close>, where \<open>min_distance\<close> starts as \<open>float('inf')\<close>, written
  \<open>None\<close> here: every distance is below it.
\<close>

definition below_min :: "real \<Rightarrow> real option \<Rightarrow> bool" where
  "below_min distance min_distance =
     (case min_distance of None \<Rightarrow> True | Some m \<Rightarrow> distance < m)"

text \<open>
  The \<open>for feature in ...\<close> loop of \<open>main_loop\<close>, on the pair
  \<open>(closest_speed_limit, min_distance)\<close>. An exception of the distance function is not
  caught in the loop.
\<close>

fun scan_features ::
  "fpu \<Rightarrow> real \<Rightarrow> real \<Rightarrow> feature list \<Rightarrow> int option \<times> real option
     \<Rightarrow> exn + (int option \<times> real option)" where
  "scan_features fl lat lon [] (closest_speed_limit, min_distance) =
     Inr (closest_speed_limit, min_distance)"
| "scan_features fl lat lon (feature # rest) (closest_speed_limit, min_distance) =
     (let zone_coords = coordinates feature;
          zone_lon = fst zone_coords;
          zone_lat = snd zone_coords
      in and_then (haversine_distance fl lat lon zone_lat zone_lon) (\<lambda>distance.
           if distance \<le> MAX_DISTANCE_METERS \<and> below_min distance min_distance
           then scan_features fl lat lon rest (Some (speed_mph feature), Some distance)
           else scan_features fl lat lon rest (closest_speed_limit, min_distance)))"

text \<open>The lookup of one cycle: the loop from \<open>(None, float('inf'))\<close>.\<close>

definition nearest ::
  "fpu \<Rightarrow> real \<Rightarrow> real \<Rightarrow> feature list \<Rightarrow> exn + (int option \<times> real option)" where
  "nearest fl lat lon features = scan_features fl lat lon features (None, None)"

text \<open>\<open>round(x)\<close> of a float: the nearest integer, a tie going to the even one.\<close>

definition py_round :: "real \<Rightarrow> int" where
  "py_round x =
     (let f = \<lfloor>x\<rfloor>; d = x - of_int f
      in if d < 1 / 2 then f
         else if 1 / 2 < d then f + 1
         else if even f then f else f + 1)"

text \<open>unit_toggle.py: the pending flag and its two accessors.\<close>

record UnitToggle =
  toggle_status :: bool

definition get_toggle_status :: "UnitToggle \<Rightarrow> bool" where
  "get_toggle_status self = toggle_status self"

definition reset_toggle_status :: "UnitToggle \<Rightarrow> UnitToggle" where
  "reset_toggle_status self = self\<lparr>toggle_status := False\<rparr>"

text \<open>The calls made on the display: \<open>show_message(text)\<close>, \<open>show_speed_limit(speed, unit)\<close>.\<close>

datatype render = ShowMessage string | ShowSpeedLimit int string

text \<open>
  What one pass of \<open>while True\<close> reads and writes: the two globals and the two objects.
  The console output of \<open>print\<close> and the sleep between passes are not modelled.
\<close>

record app =
  current_unit_is_mph :: bool
  speed_limits_data :: "feature list"
  gps_module :: GPS
  touch_toggle :: UnitToggle

text \<open>
  One pass of the loop: the new state and the call made on the display, or the exception
  that ends \<open>main_loop\<close>, which has no handler.
\<close>

definition loop_cycle :: "fpu \<Rightarrow> app \<Rightarrow> exn + (app \<times> render)" where
  "loop_cycle fl st =
     (let st1 = (if get_toggle_status (touch_toggle st)
                 then st\<lparr>current_unit_is_mph := \<not> current_unit_is_mph st,
                         touch_toggle := reset_toggle_status (touch_toggle st)\<rparr>
                 else st)
      in case get_coordinates (gps_module st1) of
           (Some lat, Some lon) \<Rightarrow>
             and_then (nearest fl lat lon (speed_limits_data st1)) (\<lambda>(closest_speed_limit, min_distance).
               case closest_speed_limit of
                 Some mph \<Rightarrow>
                   if \<not> current_unit_is_mph st1
                   then Inr (st1, ShowSpeedLimit (py_round (of_int mph * 1.60934)) ''KPH'')
                   else Inr (st1, ShowSpeedLimit mph ''MPH'')
               | None \<Rightarrow> Inr (st1, ShowMessage ''No limit found''))
         | _ \<Rightarrow> Inr (st1, ShowMessage ''Waiting for GPS...''))"

section \<open>The distance function, as the specification words it\<close>

text \<open>The value of the variable \<open>a\<close> of \<open>haversine_distance\<close>.\<close>

definition hav_a :: "fpu \<Rightarrow> real \<Rightarrow> real \<Rightarrow> real \<Rightarrow> real \<Rightarrow> real" where
  "hav_a fl lat1 lon1 lat2 lon2 =
     fl_add fl
       (fl_pow2 fl (fl_sin fl
          (fl_div fl (fl_sub fl (fl_radians fl lat2) (fl_radians fl lat1)) 2)))
       (fl_mul fl (fl_mul fl (fl_cos fl (fl_radians fl lat1)) (fl_cos fl (fl_radians fl lat2)))
          (fl_pow2 fl (fl_sin fl
             (fl_div fl (fl_sub fl (fl_radians fl lon2) (fl_radians fl lon1)) 2))))"

text \<open>
  Laws of IEEE 754 arithmetic on finite floats, and of the usual \<open>sin\<close>: a difference
  changes sign when its operands are swapped, halving and the sine commute with negation,
  a square does not see the sign, multiplication commutes.
\<close>

definition sign_laws :: "fpu \<Rightarrow> bool" where
  "sign_laws fl \<longleftrightarrow>
     (\<forall>x y. fl_sub fl x y = - fl_sub fl y x)
     \<and> (\<forall>x. fl_div fl (- x) 2 = - fl_div fl x 2)
     \<and> (\<forall>x. fl_sin fl (- x) = - fl_sin fl x)
     \<and> (\<forall>x. fl_pow2 fl (- x) = fl_pow2 fl x)
     \<and> (\<forall>x y. fl_mul fl x y = fl_mul fl y x)"

text \<open>The operations are exact where the exact result is 0 or 1.\<close>

definition zero_laws :: "fpu \<Rightarrow> bool" where
  "zero_laws fl \<longleftrightarrow>
     (\<forall>x. fl_sub fl x x = 0) \<and> fl_div fl 0 2 = 0 \<and> fl_sin fl 0 = 0 \<and> fl_pow2 fl 0 = 0
     \<and> (\<forall>x. fl_mul fl x 0 = 0) \<and> fl_add fl 0 0 = 0 \<and> fl_sqrt fl 0 = 0
     \<and> fl_sub fl 1 0 = 1 \<and> fl_sqrt fl 1 = 1 \<and> fl_atan2 fl 0 1 = 0"

section \<open>The nearest zone, as the specification words it\<close>

text \<open>
  Whether the distance from the fix to the centre of a zone raises, and the distance the
  loop computes when it does not.
\<close>

definition distance_raises :: "fpu \<Rightarrow> real \<Rightarrow> real \<Rightarrow> feature \<Rightarrow> bool" where
  "distance_raises fl lat lon z \<longleftrightarrow>
     isl (haversine_distance fl lat lon (snd (coordinates z)) (fst (coordinates z)))"

definition zone_distance :: "fpu \<Rightarrow> real \<Rightarrow> real \<Rightarrow> feature \<Rightarrow> real" where
  "zone_distance fl lat lon z =
     projr (haversine_distance fl lat lon (snd (coordinates z)) (fst (coordinates z)))"

text \<open>
  A zone is a candidate against a running minimum when it is within the radius and below
  the minimum; it is best in a table when no candidate of the table is nearer.
\<close>

definition candidate :: "fpu \<Rightarrow> real \<Rightarrow> real \<Rightarrow> real option \<Rightarrow> feature \<Rightarrow> bool" where
  "candidate fl lat lon m z \<longleftrightarrow>
     zone_distance fl lat lon z \<le> MAX_DISTANCE_METERS
     \<and> below_min (zone_distance fl lat lon z) m"

definition best_in ::
  "fpu \<Rightarrow> real \<Rightarrow> real \<Rightarrow> real option \<Rightarrow> feature list \<Rightarrow> feature \<Rightarrow> bool" where
  "best_in fl lat lon m zs z \<longleftrightarrow>
     candidate fl lat lon m z
     \<and> (\<forall>z' \<in> set zs. candidate fl lat lon m z'
           \<longrightarrow> zone_distance fl lat lon z \<le> zone_distance fl lat lon z')"

text \<open>
  The zone the specification asks for: the first zone, in table order, whose computed
  distance is at most 150 metres and at most that of every zone within 150 metres.
\<close>

definition closest_zone :: "fpu \<Rightarrow> real \<Rightarrow> real \<Rightarrow> feature list \<Rightarrow> feature option" where
  "closest_zone fl lat lon zs =
     find (\<lambda>z. zone_distance fl lat lon z \<le> 150
               \<and> (\<forall>z' \<in> set zs. zone_distance fl lat lon z' \<le> 150
                     \<longrightarrow> zone_distance fl lat lon z \<le> zone_distance fl lat lon z')) zs"

section \<open>Running the model on concrete input\<close>

lemmas run_defs = parse_nmea_def gpgga_try_def and_then_def index_def raising_def
  dec_int_def dec_float_def digit_val_def convert_nmea_latitude_def
  convert_nmea_longitude_def GPS_init_def get_coordinates_def Let_def

section \<open>The parser, branch by branch\<close>

lemma split_str_nonempty: "split_str sep s \<noteq> []"
  by (induction s) (auto simp: Let_def)

lemma index_0: "index (split_str sep s) 0 = Inr (hd (split_str sep s))"
  using split_str_nonempty [of sep s]
  by (cases "split_str sep s") (auto simp: index_def)

lemma index_in_range: "i < length xs \<Longrightarrow> index xs i = Inr (xs ! i)"
  by (simp add: index_def)

lemma parse_nmea_gpgga:
  assumes "hd (nmea_fields s) = ''$GPGGA''" and "10 \<le> length (nmea_fields s)"
  shows "parse_nmea pint flt s g =
     Inr (case pint (nmea_fields s ! 6) of
            None \<Rightarrow> g\<lparr>has_fix := False, latitude := None, longitude := None\<rparr>
          | Some q \<Rightarrow>
              if 1 \<le> q \<and> nmea_fields s ! 2 \<noteq> [] \<and> nmea_fields s ! 4 \<noteq> [] then
                g\<lparr>latitude := convert_nmea_latitude flt (nmea_fields s ! 2) (nmea_fields s ! 3),
                  longitude := convert_nmea_longitude flt (nmea_fields s ! 4) (nmea_fields s ! 5),
                  has_fix := True\<rparr>
              else g\<lparr>has_fix := False, latitude := None, longitude := None\<rparr>)"
  using assms
  by (simp add: parse_nmea_def gpgga_try_def Let_def index_0 index_in_range and_then_def
      raising_def split: option.splits)

lemma parse_nmea_gprmc:
  assumes "hd (nmea_fields s) = ''$GPRMC''" and "10 \<le> length (nmea_fields s)"
  shows "parse_nmea pint flt s g =
     Inr (if nmea_fields s ! 2 = ''A'' \<and> nmea_fields s ! 3 \<noteq> [] \<and> nmea_fields s ! 5 \<noteq> [] then
            g\<lparr>latitude := convert_nmea_latitude flt (nmea_fields s ! 3) (nmea_fields s ! 4),
              longitude := convert_nmea_longitude flt (nmea_fields s ! 5) (nmea_fields s ! 6),
              has_fix := True\<rparr>
          else g\<lparr>has_fix := False, latitude := None, longitude := None\<rparr>)"
  using assms
  by (simp add: parse_nmea_def Let_def index_0 index_in_range and_then_def)

lemma parse_nmea_other:
  assumes "(hd (nmea_fields s) \<noteq> ''$GPGGA'' \<and> hd (nmea_fields s) \<noteq> ''$GPRMC'')
           \<or> length (nmea_fields s) < 10"
  shows "parse_nmea pint flt s g = Inr g"
  using assms by (auto simp: parse_nmea_def Let_def index_0 and_then_def)

text \<open>No exception leaves \<open>_parse_nmea\<close>, whatever the line and whatever the built-ins do.\<close>

lemma parse_nmea_total: "\<exists>g'. parse_nmea pint flt s g = Inr g'"
proof (cases "10 \<le> length (nmea_fields s)")
  case False
  then show ?thesis by (simp add: parse_nmea_other)
next
  case len: True
  consider "hd (nmea_fields s) = ''$GPGGA''" | "hd (nmea_fields s) = ''$GPRMC''"
    | "hd (nmea_fields s) \<noteq> ''$GPGGA'' \<and> hd (nmea_fields s) \<noteq> ''$GPRMC''" by blast
  then show ?thesis
  proof cases
    case 1
    then show ?thesis using len by (simp add: parse_nmea_gpgga)
  next
    case 2
    then show ?thesis using len by (simp add: parse_nmea_gprmc)
  next
    case 3
    then show ?thesis by (simp add: parse_nmea_other)
  qed
qed

section \<open>Sentences that leave the tracker alone\<close>

text \<open>
  C9: a line whose first field is neither \<open>$GPGGA\<close> nor \<open>$GPRMC\<close>, and a line of either
  type with fewer than 10 fields, leaves the tracker exactly as it was: the parser
  returns the state it was given, so latitude, longitude and has_fix are unchanged.
\<close>

theorem parse_nmea_frame:
  "(hd (nmea_fields s) \<noteq> ''$GPGGA'' \<and> hd (nmea_fields s) \<noteq> ''$GPRMC'') \<or> length (nmea_fields s) < 10
   \<Longrightarrow> parse_nmea pint flt s g = Inr g"
  by (rule parse_nmea_other)

theorem parse_nmea_frame_witness:
  "hd (nmea_fields ''$GPGSV,3,1,11,03,03,111,00,04,15,270,00'') \<noteq> ''$GPGGA''
   \<and> hd (nmea_fields ''$GPGSV,3,1,11,03,03,111,00,04,15,270,00'') \<noteq> ''$GPRMC''
   \<and> parse_nmea dec_int dec_float ''$GPGSV,3,1,11,03,03,111,00,04,15,270,00''
        \<lparr>latitude = Some 48, longitude = Some 11, has_fix = True\<rparr>
      = Inr \<lparr>latitude = Some 48, longitude = Some 11, has_fix = True\<rparr>
   \<and> length (nmea_fields ''$GPGGA,123519,4807.038,N,01131.000,E,1'') < 10
   \<and> parse_nmea dec_int dec_float ''$GPGGA,123519,4807.038,N,01131.000,E,1''
        \<lparr>latitude = Some 48, longitude = Some 11, has_fix = True\<rparr>
      = Inr \<lparr>latitude = Some 48, longitude = Some 11, has_fix = True\<rparr>"
  using parse_nmea_frame [of "''$GPGSV,3,1,11,03,03,111,00,04,15,270,00''" dec_int dec_float
      "\<lparr>latitude = Some 48, longitude = Some 11, has_fix = True\<rparr>"]
    parse_nmea_frame [of "''$GPGGA,123519,4807.038,N,01131.000,E,1''" dec_int dec_float
      "\<lparr>latitude = Some 48, longitude = Some 11, has_fix = True\<rparr>"]
  by (simp add: Let_def)

section \<open>What the tracker reports\<close>

text \<open>
  C10: in every tracker state \<open>get_coordinates\<close> returns the stored pair when has_fix is
  true and both stored values are present, and \<open>(None, None)\<close> in every other state. Its
  two components are therefore both absent or both present; in particular a state the
  parser left with has_fix true and a coordinate that failed to convert is reported as
  no fix.
\<close>

theorem get_coordinates_both_or_neither:
  "(has_fix g \<and> latitude g \<noteq> None \<and> longitude g \<noteq> None
      \<longrightarrow> get_coordinates g = (latitude g, longitude g))
   \<and> (\<not> (has_fix g \<and> latitude g \<noteq> None \<and> longitude g \<noteq> None)
      \<longrightarrow> get_coordinates g = (None, None))
   \<and> (fst (get_coordinates g) = None \<longleftrightarrow> snd (get_coordinates g) = None)
   \<and> (parse_nmea pint flt s g0 = Inr g \<and> has_fix g \<and> (latitude g = None \<or> longitude g = None)
      \<longrightarrow> get_coordinates g = (None, None))"
  by (auto simp: get_coordinates_def)

theorem get_coordinates_both_or_neither_witness:
  "parse_nmea dec_int dec_float ''$GPRMC,123519,A,x,N,01131.000,E,022.4,084.4,230394'' GPS_init
     = Inr \<lparr>latitude = None, longitude = Some (691 / 60), has_fix = True\<rparr>
   \<and> get_coordinates \<lparr>latitude = None, longitude = Some (691 / 60), has_fix = True\<rparr>
     = (None, None)
   \<and> get_coordinates \<lparr>latitude = Some 48, longitude = Some 11, has_fix = True\<rparr>
     = (Some 48, Some 11)"
  using get_coordinates_both_or_neither
      [of "\<lparr>latitude = None, longitude = Some (691 / 60), has_fix = True\<rparr>"
          dec_int dec_float "''$GPRMC,123519,A,x,N,01131.000,E,022.4,084.4,230394''" GPS_init]
    get_coordinates_both_or_neither
      [of "\<lparr>latitude = Some 48, longitude = Some 11, has_fix = True\<rparr>"]
  by (simp add: run_defs)

section \<open>Fix quality and status\<close>

text \<open>
  C5, as stated, fails in its last part: a \<open>$GPRMC\<close> sentence with status \<open>A\<close> and
  non-empty coordinate fields need not yield a valid fix. With the latitude field \<open>x\<close>
  the conversion fails, the stored latitude is absent and \<open>get_coordinates\<close> reports
  no fix.
\<close>

theorem gprmc_unparseable_latitude_counterexample:
  "hd (nmea_fields ''$GPRMC,123519,A,x,N,01131.000,E,022.4,084.4,230394'') = ''$GPRMC''
   \<and> 10 \<le> length (nmea_fields ''$GPRMC,123519,A,x,N,01131.000,E,022.4,084.4,230394'')
   \<and> nmea_fields ''$GPRMC,123519,A,x,N,01131.000,E,022.4,084.4,230394'' ! 2 = ''A''
   \<and> nmea_fields ''$GPRMC,123519,A,x,N,01131.000,E,022.4,084.4,230394'' ! 3 = ''x''
   \<and> nmea_fields ''$GPRMC,123519,A,x,N,01131.000,E,022.4,084.4,230394'' ! 5 = ''01131.000''
   \<and> parse_nmea dec_int dec_float
        ''$GPRMC,123519,A,x,N,01131.000,E,022.4,084.4,230394'' GPS_init
      = Inr \<lparr>latitude = None, longitude = Some (691 / 60), has_fix = True\<rparr>
   \<and> get_coordinates \<lparr>latitude = None, longitude = Some (691 / 60), has_fix = True\<rparr>
      = (None, None)"
  by (simp add: run_defs)

text \<open>
  C5, amended: on a sentence of at least 10 fields, a \<open>$GPGGA\<close> whose fix-quality field
  reads as 0 and a \<open>$GPRMC\<close> whose status field is not \<open>A\<close> put the tracker in the
  invalid-fix state (has_fix false, both coordinates cleared) whatever the coordinate
  fields hold; a \<open>$GPRMC\<close> with status \<open>A\<close>, non-empty coordinate fields, and \<open>float\<close>
  accepting the first 2 characters and the remainder of the latitude field and the first
  3 characters and the remainder of the longitude field, yields a valid fix: has_fix is
  set, both coordinates are decoded and \<open>get_coordinates\<close> returns them.
\<close>

theorem parse_nmea_fix_status:
  assumes "10 \<le> length (nmea_fields s)"
  shows "(hd (nmea_fields s) = ''$GPGGA'' \<and> pint (nmea_fields s ! 6) = Some 0
            \<longrightarrow> parse_nmea pint flt s g
                = Inr (g\<lparr>has_fix := False, latitude := None, longitude := None\<rparr>))
       \<and> (hd (nmea_fields s) = ''$GPRMC'' \<and> nmea_fields s ! 2 \<noteq> ''A''
            \<longrightarrow> parse_nmea pint flt s g
                = Inr (g\<lparr>has_fix := False, latitude := None, longitude := None\<rparr>))
       \<and> (hd (nmea_fields s) = ''$GPRMC'' \<and> nmea_fields s ! 2 = ''A''
            \<and> nmea_fields s ! 3 \<noteq> [] \<and> nmea_fields s ! 5 \<noteq> []
            \<and> flt (take 2 (nmea_fields s ! 3)) = Some dd
            \<and> flt (drop 2 (nmea_fields s ! 3)) = Some mm
            \<and> flt (take 3 (nmea_fields s ! 5)) = Some ddd
            \<and> flt (drop 3 (nmea_fields s ! 5)) = Some mmm
            \<longrightarrow> (\<exists>g'. parse_nmea pint flt s g = Inr g' \<and> has_fix g'
                  \<and> latitude g' = Some (if nmea_fields s ! 4 = ''S'' then - (dd + mm / 60)
                                         else dd + mm / 60)
                  \<and> longitude g' = Some (if nmea_fields s ! 6 = ''W'' then - (ddd + mmm / 60)
                                          else ddd + mmm / 60)
                  \<and> get_coordinates g' = (latitude g', longitude g')))"
  using assms
  by (simp add: parse_nmea_gpgga parse_nmea_gprmc convert_nmea_latitude_def
      convert_nmea_longitude_def get_coordinates_def Let_def)

theorem parse_nmea_fix_status_witness:
  "10 \<le> length (nmea_fields ''$GPGGA,123519,4807.038,N,01131.000,E,0,08,0.9,545.4,M,46.9,M,,*47'')
   \<and> dec_int (nmea_fields ''$GPGGA,123519,4807.038,N,01131.000,E,0,08,0.9,545.4,M,46.9,M,,*47'' ! 6) = Some 0
   \<and> parse_nmea dec_int dec_float
        ''$GPGGA,123519,4807.038,N,01131.000,E,0,08,0.9,545.4,M,46.9,M,,*47''
        \<lparr>latitude = Some 48, longitude = Some 11, has_fix = True\<rparr>
      = Inr \<lparr>latitude = None, longitude = None, has_fix = False\<rparr>
   \<and> 10 \<le> length (nmea_fields ''$GPRMC,123519,V,4807.038,N,01131.000,E,022.4,084.4,230394'')
   \<and> nmea_fields ''$GPRMC,123519,V,4807.038,N,01131.000,E,022.4,084.4,230394'' ! 2 \<noteq> ''A''
   \<and> parse_nmea dec_int dec_float
        ''$GPRMC,123519,V,4807.038,N,01131.000,E,022.4,084.4,230394''
        \<lparr>latitude = Some 48, longitude = Some 11, has_fix = True\<rparr>
      = Inr \<lparr>latitude = None, longitude = None, has_fix = False\<rparr>
   \<and> 10 \<le> length (nmea_fields ''$GPRMC,123519,A,4807.038,N,01131.000,W,022.4,084.4,230394'')
   \<and> dec_float (take 2 ''4807.038'') = Some 48 \<and> dec_float (drop 2 ''4807.038'') = Some 7.038
   \<and> dec_float (take 3 ''01131.000'') = Some 11 \<and> dec_float (drop 3 ''01131.000'') = Some 31
   \<and> parse_nmea dec_int dec_float
        ''$GPRMC,123519,A,4807.038,N,01131.000,W,022.4,084.4,230394'' GPS_init
      = Inr \<lparr>latitude = Some 48.1173, longitude = Some (- (11 + 31 / 60)), has_fix = True\<rparr>
   \<and> get_coordinates \<lparr>latitude = Some 48.1173, longitude = Some (- (11 + 31 / 60)), has_fix = True\<rparr>
      = (Some 48.1173, Some (- (11 + 31 / 60)))"
  using
    parse_nmea_fix_status [of "''$GPGGA,123519,4807.038,N,01131.000,E,0,08,0.9,545.4,M,46.9,M,,*47''"
      dec_int dec_float "\<lparr>latitude = Some 48, longitude = Some 11, has_fix = True\<rparr>"]
    parse_nmea_fix_status [of "''$GPRMC,123519,V,4807.038,N,01131.000,E,022.4,084.4,230394''"
      dec_int dec_float "\<lparr>latitude = Some 48, longitude = Some 11, has_fix = True\<rparr>"]
    parse_nmea_fix_status [of "''$GPRMC,123519,A,4807.038,N,01131.000,W,022.4,084.4,230394''"
      dec_int dec_float GPS_init 48 "7.038" 11 31]
  by (simp add: run_defs)

section \<open>Malformed numeric fields\<close>

text \<open>
  C3, as stated, fails: a \<open>$GPGGA\<close> sentence with fix quality 1 and the unparseable
  latitude \<open>48x7.038\<close> leaves has_fix true and the longitude stored; only the latitude
  is absent.
\<close>

theorem malformed_latitude_counterexample:
  "hd (nmea_fields ''$GPGGA,123519,48x7.038,N,01131.000,E,1,08,0.9,545.4,M,46.9,M,,*47'') = ''$GPGGA''
   \<and> 10 \<le> length (nmea_fields ''$GPGGA,123519,48x7.038,N,01131.000,E,1,08,0.9,545.4,M,46.9,M,,*47'')
   \<and> nmea_fields ''$GPGGA,123519,48x7.038,N,01131.000,E,1,08,0.9,545.4,M,46.9,M,,*47'' ! 2 = ''48x7.038''
   \<and> convert_nmea_latitude dec_float ''48x7.038'' ''N'' = None
   \<and> parse_nmea dec_int dec_float
        ''$GPGGA,123519,48x7.038,N,01131.000,E,1,08,0.9,545.4,M,46.9,M,,*47'' GPS_init
      = Inr \<lparr>latitude = None, longitude = Some (691 / 60), has_fix = True\<rparr>"
  by (simp add: run_defs)

text \<open>
  C3, amended: on a recognised sentence of at least 10 fields the parser raises nothing.
  A fix-quality field that \<open>int\<close> rejects puts the tracker in the invalid-fix state
  (has_fix false, coordinates cleared); a non-empty coordinate field that fails to
  convert leaves a state that \<open>get_coordinates\<close> reports as \<open>(None, None)\<close>.
\<close>

theorem parse_nmea_malformed_no_fix:
  assumes "10 \<le> length (nmea_fields s)"
  shows "(\<exists>g'. parse_nmea pint flt s g = Inr g' \<and> 
          (hd (nmea_fields s) = ''$GPGGA'' \<and> pint (nmea_fields s ! 6) = None
             \<longrightarrow> g' = g\<lparr>has_fix := False, latitude := None, longitude := None\<rparr>)
        \<and> (hd (nmea_fields s) = ''$GPGGA''
            \<and> (nmea_fields s ! 2 \<noteq> [] \<and> convert_nmea_latitude flt (nmea_fields s ! 2) (nmea_fields s ! 3) = None
               \<or> nmea_fields s ! 4 \<noteq> [] \<and> convert_nmea_longitude flt (nmea_fields s ! 4) (nmea_fields s ! 5) = None)
             \<longrightarrow> get_coordinates g' = (None, None))
        \<and> (hd (nmea_fields s) = ''$GPRMC''
            \<and> (nmea_fields s ! 3 \<noteq> [] \<and> convert_nmea_latitude flt (nmea_fields s ! 3) (nmea_fields s ! 4) = None
               \<or> nmea_fields s ! 5 \<noteq> [] \<and> convert_nmea_longitude flt (nmea_fields s ! 5) (nmea_fields s ! 6) = None)
             \<longrightarrow> get_coordinates g' = (None, None)))"
proof -
  consider (gga) "hd (nmea_fields s) = ''$GPGGA''" | (rmc) "hd (nmea_fields s) = ''$GPRMC''"
    | (other) "hd (nmea_fields s) \<noteq> ''$GPGGA'' \<and> hd (nmea_fields s) \<noteq> ''$GPRMC''" by blast
  then show ?thesis
  proof cases
    case gga
    then show ?thesis using assms
      by (auto simp: parse_nmea_gpgga get_coordinates_def split: option.splits)
  next
    case rmc
    then show ?thesis using assms
      by (auto simp: parse_nmea_gprmc get_coordinates_def)
  next
    case other
    then show ?thesis by (simp add: parse_nmea_other)
  qed
qed

theorem parse_nmea_malformed_no_fix_witness:
  "dec_int ''x'' = None
   \<and> parse_nmea dec_int dec_float
        ''$GPGGA,123519,4807.038,N,01131.000,E,x,08,0.9,545.4,M,46.9,M,,*47''
        \<lparr>latitude = Some 48, longitude = Some 11, has_fix = True\<rparr>
      = Inr \<lparr>latitude = None, longitude = None, has_fix = False\<rparr>
   \<and> convert_nmea_latitude dec_float ''48x7.038'' ''N'' = None
   \<and> parse_nmea dec_int dec_float
        ''$GPGGA,123519,48x7.038,N,01131.000,E,1,08,0.9,545.4,M,46.9,M,,*47''
        \<lparr>latitude = Some 48, longitude = Some 11, has_fix = True\<rparr>
      = Inr \<lparr>latitude = None, longitude = Some (691 / 60), has_fix = True\<rparr>
   \<and> get_coordinates \<lparr>latitude = None, longitude = Some (691 / 60), has_fix = True\<rparr>
      = (None, None)
   \<and> convert_nmea_longitude dec_float ''0113x.000'' ''E'' = None
   \<and> parse_nmea dec_int dec_float
        ''$GPRMC,123519,A,4807.038,N,0113x.000,E,022.4,084.4,230394''
        \<lparr>latitude = Some 48, longitude = Some 11, has_fix = True\<rparr>
      = Inr \<lparr>latitude = Some 48.1173, longitude = None, has_fix = True\<rparr>
   \<and> get_coordinates \<lparr>latitude = Some 48.1173, longitude = None, has_fix = True\<rparr>
      = (None, None)"
  using
    parse_nmea_malformed_no_fix
      [of "''$GPGGA,123519,4807.038,N,01131.000,E,x,08,0.9,545.4,M,46.9,M,,*47''" dec_int dec_float
          "\<lparr>latitude = Some 48, longitude = Some 11, has_fix = True\<rparr>"]
    parse_nmea_malformed_no_fix
      [of "''$GPGGA,123519,48x7.038,N,01131.000,E,1,08,0.9,545.4,M,46.9,M,,*47''" dec_int dec_float
          "\<lparr>latitude = Some 48, longitude = Some 11, has_fix = True\<rparr>"]
    parse_nmea_malformed_no_fix
      [of "''$GPRMC,123519,A,4807.038,N,0113x.000,E,022.4,084.4,230394''" dec_int dec_float
          "\<lparr>latitude = Some 48, longitude = Some 11, has_fix = True\<rparr>"]
  by (simp add: run_defs)

section \<open>Decoding the coordinates of a \<open>$GPGGA\<close> sentence\<close>

text \<open>
  C2, as stated, fails: non-empty coordinate fields need not convert. With the latitude
  field \<open>48\<close> the minutes part is empty, \<open>float\<close> rejects it, and the stored latitude
  is absent although fix quality is 1 and both fields are non-empty.
\<close>

theorem gpgga_short_latitude_counterexample:
  "hd (nmea_fields ''$GPGGA,123519,48,N,01131.000,E,1,08,0.9,545.4,M,46.9,M,,*47'') = ''$GPGGA''
   \<and> 10 \<le> length (nmea_fields ''$GPGGA,123519,48,N,01131.000,E,1,08,0.9,545.4,M,46.9,M,,*47'')
   \<and> dec_int (nmea_fields ''$GPGGA,123519,48,N,01131.000,E,1,08,0.9,545.4,M,46.9,M,,*47'' ! 6) = Some 1
   \<and> nmea_fields ''$GPGGA,123519,48,N,01131.000,E,1,08,0.9,545.4,M,46.9,M,,*47'' ! 2 = ''48''
   \<and> nmea_fields ''$GPGGA,123519,48,N,01131.000,E,1,08,0.9,545.4,M,46.9,M,,*47'' ! 4 = ''01131.000''
   \<and> dec_float (drop 2 ''48'') = None
   \<and> parse_nmea dec_int dec_float
        ''$GPGGA,123519,48,N,01131.000,E,1,08,0.9,545.4,M,46.9,M,,*47'' GPS_init
      = Inr \<lparr>latitude = None, longitude = Some (691 / 60), has_fix = True\<rparr>"
  by (simp add: run_defs)

text \<open>
  C2, amended: for a \<open>$GPGGA\<close> sentence of at least 10 fields whose fix quality reads
  as an integer of at least 1, whose latitude and longitude fields are non-empty, and
  for which \<open>float\<close> accepts the first 2 characters and the remainder of the latitude
  and the first 3 characters and the remainder of the longitude, the parser sets
  has_fix, stores degrees plus minutes over 60 (negated for direction \<open>S\<close>, respectively
  \<open>W\<close>), and \<open>get_coordinates\<close> returns that pair. \<open>4807.038\<close> with \<open>N\<close> gives 48.1173.
\<close>

theorem parse_nmea_gpgga_decodes:
  assumes "hd (nmea_fields s) = ''$GPGGA''" and "10 \<le> length (nmea_fields s)"
    and "pint (nmea_fields s ! 6) = Some q" and "1 \<le> q"
    and "nmea_fields s ! 2 \<noteq> []" and "nmea_fields s ! 4 \<noteq> []"
    and "flt (take 2 (nmea_fields s ! 2)) = Some dd"
    and "flt (drop 2 (nmea_fields s ! 2)) = Some mm"
    and "flt (take 3 (nmea_fields s ! 4)) = Some ddd"
    and "flt (drop 3 (nmea_fields s ! 4)) = Some mmm"
  shows "\<exists>g'. parse_nmea pint flt s g = Inr g' \<and> has_fix g'
           \<and> latitude g' = Some (if nmea_fields s ! 3 = ''S'' then - (dd + mm / 60)
                                  else dd + mm / 60)
           \<and> longitude g' = Some (if nmea_fields s ! 5 = ''W'' then - (ddd + mmm / 60)
                                   else ddd + mmm / 60)
           \<and> get_coordinates g' = (latitude g', longitude g')"
  using assms
  by (simp add: parse_nmea_gpgga convert_nmea_latitude_def convert_nmea_longitude_def
      get_coordinates_def Let_def)

theorem parse_nmea_gpgga_decodes_witness:
  "parse_nmea dec_int dec_float
      ''$GPGGA,123519,4807.038,N,01131.000,E,1,08,0.9,545.4,M,46.9,M,,*47'' GPS_init
     = Inr \<lparr>latitude = Some 48.1173, longitude = Some (11 + 31 / 60), has_fix = True\<rparr>
   \<and> parse_nmea dec_int dec_float
      ''$GPGGA,123519,3351.600,S,07030.000,W,2,08,0.9,545.4,M,46.9,M,,*47'' GPS_init
     = Inr \<lparr>latitude = Some (- 33.86), longitude = Some (- 70.5), has_fix = True\<rparr>"
  using
    parse_nmea_gpgga_decodes [of "''$GPGGA,123519,4807.038,N,01131.000,E,1,08,0.9,545.4,M,46.9,M,,*47''"
      dec_int 1 dec_float 48 "7.038" 11 31 GPS_init]
    parse_nmea_gpgga_decodes [of "''$GPGGA,123519,3351.600,S,07030.000,W,2,08,0.9,545.4,M,46.9,M,,*47''"
      dec_int 2 dec_float 33 "51.6" 70 30 GPS_init]
  by (simp add: run_defs)

section \<open>The range of decoded coordinates\<close>

text \<open>
  C4, as stated, fails: the decoder checks no range. Latitude \<open>9900.000\<close> and longitude
  \<open>19900.000\<close> are accepted as a valid fix at 99 and 199 degrees.
\<close>

theorem out_of_range_fix_counterexample:
  "parse_nmea dec_int dec_float
      ''$GPGGA,123519,9900.000,N,19900.000,E,1,08,0.9,545.4,M,46.9,M,,*47'' GPS_init
     = Inr \<lparr>latitude = Some 99, longitude = Some 199, has_fix = True\<rparr>
   \<and> get_coordinates \<lparr>latitude = Some 99, longitude = Some 199, has_fix = True\<rparr>
     = (Some 99, Some 199)
   \<and> \<not> (99 :: real) \<le> 90 \<and> \<not> (199 :: real) \<le> 180"
  by (simp add: run_defs)

text \<open>
  C4, amended: a decoded latitude lies in [-90, 90] when its degrees part is between 0
  and 89 and its minutes part is at least 0 and below 60; a decoded longitude lies in
  [-180, 180] when its degrees part is between 0 and 179 and its minutes part is at
  least 0 and below 60.
\<close>

theorem convert_nmea_in_range:
  "(convert_nmea_latitude flt nmea_lat lat_dir = Some lat
      \<and> flt (take 2 nmea_lat) = Some dd \<and> flt (drop 2 nmea_lat) = Some mm
      \<and> 0 \<le> dd \<and> dd \<le> 89 \<and> 0 \<le> mm \<and> mm < 60
    \<longrightarrow> - 90 \<le> lat \<and> lat \<le> 90)
   \<and> (convert_nmea_longitude flt nmea_lon lon_dir = Some lon
      \<and> flt (take 3 nmea_lon) = Some ddd \<and> flt (drop 3 nmea_lon) = Some mmm
      \<and> 0 \<le> ddd \<and> ddd \<le> 179 \<and> 0 \<le> mmm \<and> mmm < 60
    \<longrightarrow> - 180 \<le> lon \<and> lon \<le> 180)"
  by (auto simp: convert_nmea_latitude_def convert_nmea_longitude_def Let_def
      split: if_splits)

theorem convert_nmea_in_range_witness:
  "convert_nmea_latitude dec_float ''4807.038'' ''N'' = Some 48.1173
   \<and> dec_float (take 2 ''4807.038'') = Some 48 \<and> dec_float (drop 2 ''4807.038'') = Some 7.038
   \<and> - 90 \<le> (48.1173 :: real) \<and> (48.1173 :: real) \<le> 90
   \<and> convert_nmea_longitude dec_float ''01131.000'' ''W'' = Some (- (691 / 60))
   \<and> dec_float (take 3 ''01131.000'') = Some 11 \<and> dec_float (drop 3 ''01131.000'') = Some 31
   \<and> - 180 \<le> (- (691 / 60) :: real) \<and> (- (691 / 60) :: real) \<le> 180"
  using convert_nmea_in_range [of dec_float "''4807.038''" "''N''" "48.1173" 48 "7.038"
      "''01131.000''" "''W''" "- (691 / 60)" 11 31]
  by (simp add: run_defs)

section \<open>The distance function\<close>

text \<open>
  In exact arithmetic the argument of both square roots lies between 0 and 1: the
  product of the two cosines is bounded through the half-angle of their difference.
\<close>

lemma cos_diff_half: "cos (x - y) = 1 - 2 * (sin ((y - x) / (2::real)))\<^sup>2"
proof -
  have e: "2 * ((y - x) / 2) = y - x"
    by argo
  have "cos (x - y) = cos (- (y - x))"
    by (simp only: minus_diff_eq)
  also have "\<dots> = cos (y - x)"
    by (rule cos_minus)
  also have "\<dots> = cos (2 * ((y - x) / 2))"
    by (simp only: e)
  also have "\<dots> = 1 - 2 * (sin ((y - x) / 2))\<^sup>2"
    by (rule cos_double_sin)
  finally show ?thesis .
qed

lemma cos_prod_lower: "- ((sin ((y - x) / 2))\<^sup>2) \<le> cos x * cos (y::real)"
proof -
  have 1: "cos (x - y) + cos (x + y) = 2 * (cos x * cos y)"
    by (simp add: cos_add cos_diff)
  have 2: "cos (x - y) = 1 - 2 * (sin ((y - x) / 2))\<^sup>2"
    by (rule cos_diff_half)
  have 3: "- 1 \<le> cos (x + y)" by simp
  from 1 2 3 show ?thesis by linarith
qed

lemma cos_prod_upper: "cos x * cos (y::real) \<le> 1 - (sin ((y - x) / 2))\<^sup>2"
proof -
  have 1: "cos (x - y) + cos (x + y) = 2 * (cos x * cos y)"
    by (simp add: cos_add cos_diff)
  have 2: "cos (x - y) = 1 - 2 * (sin ((y - x) / 2))\<^sup>2"
    by (rule cos_diff_half)
  have 3: "cos (x + y) \<le> 1" by simp
  from 1 2 3 show ?thesis by linarith
qed

lemma sin_sq_le_1: "(sin (t::real))\<^sup>2 \<le> 1"
  using sin_cos_squared_add [of t] zero_le_power2 [of "cos t"] by linarith

lemma hav_nonneg:
  "0 \<le> (sin ((y - x) / 2))\<^sup>2 + cos x * cos y * (sin (t::real))\<^sup>2"
proof -
  let ?u = "(sin ((y - x) / 2))\<^sup>2" and ?s = "(sin t)\<^sup>2"
  have s: "0 \<le> ?s" "?s \<le> 1" by (simp_all add: sin_sq_le_1)
  have u: "0 \<le> ?u" by simp
  have "(- ?u) * ?s \<le> cos x * cos y * ?s"
    using cos_prod_lower [of y x] s(1) by (rule mult_right_mono)
  moreover have "?u * ?s \<le> ?u * 1"
    using s(2) u by (rule mult_left_mono)
  ultimately show ?thesis by simp
qed

lemma hav_le_1:
  "(sin ((y - x) / 2))\<^sup>2 + cos x * cos y * (sin (t::real))\<^sup>2 \<le> 1"
proof -
  let ?u = "(sin ((y - x) / 2))\<^sup>2" and ?s = "(sin t)\<^sup>2"
  have s: "0 \<le> ?s" "?s \<le> 1" by (simp_all add: sin_sq_le_1)
  have u: "0 \<le> 1 - ?u" by (simp add: sin_sq_le_1)
  have "cos x * cos y * ?s \<le> (1 - ?u) * ?s"
    using cos_prod_upper [of x y] s(1) by (rule mult_right_mono)
  moreover have "(1 - ?u) * ?s \<le> (1 - ?u) * 1"
    using s(2) u by (rule mult_left_mono)
  ultimately show ?thesis by simp
qed

lemma atan2_nonneg: "0 \<le> y \<Longrightarrow> 0 \<le> x \<Longrightarrow> 0 \<le> atan2 y x"
  by (auto simp: atan2_def)

lemma haversine_distance_a:
  "haversine_distance fl lat1 lon1 lat2 lon2 =
     (if hav_a fl lat1 lon1 lat2 lon2 < 0 \<or> fl_sub fl 1 (hav_a fl lat1 lon1 lat2 lon2) < 0
      then Inl ValueError
      else Inr (fl_mul fl 6371000
             (fl_mul fl 2
                (fl_atan2 fl (fl_sqrt fl (hav_a fl lat1 lon1 lat2 lon2))
                   (fl_sqrt fl (fl_sub fl 1 (hav_a fl lat1 lon1 lat2 lon2)))))))"
  by (simp add: haversine_distance_def hav_a_def math_sqrt_def and_then_def Let_def)

lemma haversine_distance_raises_iff:
  "haversine_distance fl lat1 lon1 lat2 lon2 = Inl e \<longleftrightarrow>
     e = ValueError
     \<and> (hav_a fl lat1 lon1 lat2 lon2 < 0 \<or> fl_sub fl 1 (hav_a fl lat1 lon1 lat2 lon2) < 0)"
  by (auto simp: haversine_distance_a)

lemma hav_a_sym:
  assumes "sign_laws fl"
  shows "hav_a fl lat1 lon1 lat2 lon2 = hav_a fl lat2 lon2 lat1 lon1"
proof -
  have sub: "fl_sub fl x y = - fl_sub fl y x" for x y
    using assms unfolding sign_laws_def by blast
  have half: "fl_div fl (- x) 2 = - fl_div fl x 2" for x
    using assms unfolding sign_laws_def by blast
  have odd: "fl_sin fl (- x) = - fl_sin fl x" for x
    using assms unfolding sign_laws_def by blast
  have sq: "fl_pow2 fl (- x) = fl_pow2 fl x" for x
    using assms unfolding sign_laws_def by blast
  have comm: "fl_mul fl x y = fl_mul fl y x" for x y
    using assms unfolding sign_laws_def by blast
  have swap: "fl_pow2 fl (fl_sin fl (fl_div fl (fl_sub fl x y) 2))
              = fl_pow2 fl (fl_sin fl (fl_div fl (fl_sub fl y x) 2))" for x y
  proof -
    have "fl_pow2 fl (fl_sin fl (fl_div fl (fl_sub fl x y) 2))
          = fl_pow2 fl (fl_sin fl (fl_div fl (- fl_sub fl y x) 2))"
      by (simp only: sub [of x y])
    also have "\<dots> = fl_pow2 fl (- fl_sin fl (fl_div fl (fl_sub fl y x) 2))"
      by (simp only: half odd)
    also have "\<dots> = fl_pow2 fl (fl_sin fl (fl_div fl (fl_sub fl y x) 2))"
      by (rule sq)
    finally show ?thesis .
  qed
  show ?thesis
    unfolding hav_a_def
    by (simp only: swap [of "fl_radians fl lat2" "fl_radians fl lat1"]
        swap [of "fl_radians fl lon2" "fl_radians fl lon1"]
        comm [of "fl_cos fl (fl_radians fl lat1)" "fl_cos fl (fl_radians fl lat2)"])
qed

lemma haversine_distance_sym:
  "sign_laws fl \<Longrightarrow>
     haversine_distance fl lat1 lon1 lat2 lon2 = haversine_distance fl lat2 lon2 lat1 lon1"
  by (simp only: haversine_distance_a hav_a_sym [of fl lat1 lon1 lat2 lon2])

lemma hav_a_same: "zero_laws fl \<Longrightarrow> hav_a fl lat lon lat lon = 0"
  by (simp add: hav_a_def zero_laws_def)

lemma haversine_distance_same:
  "zero_laws fl \<Longrightarrow> haversine_distance fl lat lon lat lon = Inr 0"
  by (simp add: haversine_distance_a hav_a_same) (simp add: zero_laws_def)

lemma sign_laws_exact: "sign_laws exact_fpu"
  by (simp add: sign_laws_def exact_fpu_def)

lemma zero_laws_exact: "zero_laws exact_fpu"
  by (simp add: zero_laws_def exact_fpu_def atan2_def)

lemma sign_laws_skewed: "sign_laws skewed_fpu"
  by (simp add: sign_laws_def skewed_fpu_def exact_fpu_def)

lemma zero_laws_skewed: "zero_laws skewed_fpu"
  by (simp add: zero_laws_def skewed_fpu_def exact_fpu_def atan2_def)

lemma hav_a_exact:
  "hav_a exact_fpu lat1 lon1 lat2 lon2 =
     (sin ((radians lat2 - radians lat1) / 2))\<^sup>2
     + cos (radians lat1) * cos (radians lat2) * (sin ((radians lon2 - radians lon1) / 2))\<^sup>2"
  by (simp add: hav_a_def exact_fpu_def)

lemma haversine_exact_total:
  "\<exists>d. haversine_distance exact_fpu lat1 lon1 lat2 lon2 = Inr d \<and> 0 \<le> d"
proof -
  let ?a = "hav_a exact_fpu lat1 lon1 lat2 lon2"
  have lo: "0 \<le> ?a"
    unfolding hav_a_exact
    by (rule hav_nonneg [of "radians lat2" "radians lat1" "(radians lon2 - radians lon1) / 2"])
  have hi: "?a \<le> 1"
    unfolding hav_a_exact
    by (rule hav_le_1 [of "radians lat2" "radians lat1" "(radians lon2 - radians lon1) / 2"])
  have "haversine_distance exact_fpu lat1 lon1 lat2 lon2
        = Inr (6371000 * (2 * atan2 (sqrt ?a) (sqrt (1 - ?a))))"
    using lo hi by (simp add: haversine_distance_a) (simp add: exact_fpu_def)
  moreover have "0 \<le> atan2 (sqrt ?a) (sqrt (1 - ?a))"
    using lo hi by (simp add: atan2_nonneg)
  ultimately show ?thesis by simp
qed

lemma hav_a_exact_half_turn: "hav_a exact_fpu 0 0 0 180 = 1"
  by (simp add: hav_a_exact radians_def)

lemma haversine_exact_half_turn: "haversine_distance exact_fpu 0 0 0 180 = Inr (6371000 * pi)"
  by (simp add: haversine_distance_a hav_a_exact_half_turn) (simp add: exact_fpu_def atan2_def)

lemma hav_a_skewed_half_turn:
  "hav_a skewed_fpu 0 0 0 180 = (1 + 1 / 2 ^ 53)\<^sup>2"
  by (simp add: hav_a_def skewed_fpu_def exact_fpu_def radians_def power2_eq_square)

lemma skewed_above_1: "1 < (1 + 1 / 2 ^ 53 :: real)\<^sup>2"
  by (simp add: power2_eq_square algebra_simps)

lemma haversine_skewed_half_turn: "haversine_distance skewed_fpu 0 0 0 180 = Inl ValueError"
proof -
  have "fl_sub skewed_fpu 1 (hav_a skewed_fpu 0 0 0 180) < 0"
    using skewed_above_1 by (simp add: hav_a_skewed_half_turn) (simp add: skewed_fpu_def exact_fpu_def)
  then show ?thesis by (simp add: haversine_distance_a)
qed

text \<open>
  C8: the outcome of the distance function depends on its four arguments and the
  arithmetic alone. When the arithmetic is exact at 0 and 1, the distance from a point to
  itself is 0. When it obeys the sign laws, the outcome for a and b is the outcome for b
  and a, be it a distance or the exception. The function raises ValueError exactly when
  the computed \<open>a\<close> is negative or the computed \<open>1 - a\<close> is: exact arithmetic excludes
  both, and there two opposite points of the equator are 6371000 times pi apart, which
  fixes the radius; an arithmetic that rounds does not exclude them.
\<close>

theorem haversine_distance_properties:
  "(zero_laws fl \<longrightarrow> haversine_distance fl lat lon lat lon = Inr 0)
   \<and> (sign_laws fl \<longrightarrow>
        haversine_distance fl lat1 lon1 lat2 lon2 = haversine_distance fl lat2 lon2 lat1 lon1)
   \<and> (haversine_distance fl lat1 lon1 lat2 lon2 = Inl ValueError
        \<longleftrightarrow> hav_a fl lat1 lon1 lat2 lon2 < 0
            \<or> fl_sub fl 1 (hav_a fl lat1 lon1 lat2 lon2) < 0)
   \<and> (\<exists>d. haversine_distance exact_fpu lat1 lon1 lat2 lon2 = Inr d \<and> 0 \<le> d)
   \<and> haversine_distance exact_fpu 0 0 0 180 = Inr (6371000 * pi)"
  using haversine_distance_same [of fl lat lon]
    haversine_distance_sym [of fl lat1 lon1 lat2 lon2]
    haversine_distance_raises_iff [of fl lat1 lon1 lat2 lon2 ValueError]
    haversine_exact_total [of lat1 lon1 lat2 lon2] haversine_exact_half_turn
  by blast

theorem haversine_distance_properties_witness:
  "zero_laws skewed_fpu \<and> sign_laws skewed_fpu
   \<and> haversine_distance skewed_fpu 40 (- 75) 40 (- 75) = Inr 0
   \<and> hav_a skewed_fpu 0 0 0 180 = (1 + 1 / 2 ^ 53)\<^sup>2
   \<and> fl_sub skewed_fpu 1 (hav_a skewed_fpu 0 0 0 180) < 0
   \<and> haversine_distance skewed_fpu 0 0 0 180 = Inl ValueError
   \<and> haversine_distance skewed_fpu 0 180 0 0 = Inl ValueError
   \<and> zero_laws exact_fpu \<and> sign_laws exact_fpu
   \<and> haversine_distance exact_fpu 0 0 0 180 = Inr (6371000 * pi)
   \<and> haversine_distance exact_fpu 0 180 0 0 = Inr (6371000 * pi)"
proof -
  have s: "fl_sub skewed_fpu 1 (hav_a skewed_fpu 0 0 0 180) < 0"
    using skewed_above_1 by (simp add: hav_a_skewed_half_turn) (simp add: skewed_fpu_def exact_fpu_def)
  have p1: "haversine_distance skewed_fpu 40 (- 75) 40 (- 75) = Inr 0"
    using haversine_distance_properties [THEN conjunct1, of skewed_fpu 40 "- 75"]
      zero_laws_skewed by simp
  have p2: "haversine_distance skewed_fpu 0 0 0 180 = Inl ValueError"
    using haversine_distance_properties
      [THEN conjunct2, THEN conjunct2, THEN conjunct1, of skewed_fpu 0 0 0 180] s by simp
  have p3: "haversine_distance skewed_fpu 0 180 0 0 = Inl ValueError"
    using haversine_distance_properties
      [THEN conjunct2, THEN conjunct1, of skewed_fpu 0 0 0 180] sign_laws_skewed p2 by simp
  have p4: "haversine_distance exact_fpu 0 0 0 180 = Inr (6371000 * pi)"
    using haversine_distance_properties [of exact_fpu] by simp
  have p5: "haversine_distance exact_fpu 0 180 0 0 = Inr (6371000 * pi)"
    using haversine_distance_properties
      [THEN conjunct2, THEN conjunct1, of exact_fpu 0 0 0 180] sign_laws_exact p4 by simp
  from zero_laws_skewed sign_laws_skewed zero_laws_exact sign_laws_exact
    hav_a_skewed_half_turn s p1 p2 p3 p4 p5
  show ?thesis by blast
qed

section \<open>The nearest-zone loop\<close>

lemma haversine_zone:
  "\<not> distance_raises fl lat lon z \<Longrightarrow>
     haversine_distance fl lat lon (snd (coordinates z)) (fst (coordinates z))
       = Inr (zone_distance fl lat lon z)"
  by (cases "haversine_distance fl lat lon (snd (coordinates z)) (fst (coordinates z))")
     (simp_all add: distance_raises_def zone_distance_def)

lemma haversine_zone_raises:
  "distance_raises fl lat lon z \<Longrightarrow>
     haversine_distance fl lat lon (snd (coordinates z)) (fst (coordinates z))
       = Inl ValueError"
  by (cases "haversine_distance fl lat lon (snd (coordinates z)) (fst (coordinates z))")
     (simp_all add: distance_raises_def haversine_distance_raises_iff)

lemma scan_features_Cons:
  "\<not> distance_raises fl lat lon z \<Longrightarrow>
   scan_features fl lat lon (z # zs) (c, m) =
     (if candidate fl lat lon m z
      then scan_features fl lat lon zs (Some (speed_mph z), Some (zone_distance fl lat lon z))
      else scan_features fl lat lon zs (c, m))"
  by (simp add: Let_def haversine_zone and_then_def candidate_def)

lemma scan_features_Cons_raises:
  "distance_raises fl lat lon z \<Longrightarrow> scan_features fl lat lon (z # zs) (c, m) = Inl ValueError"
  by (simp add: Let_def haversine_zone_raises and_then_def)

lemma scan_features_raises:
  "\<exists>z \<in> set zs. distance_raises fl lat lon z \<Longrightarrow>
     scan_features fl lat lon zs (c, m) = Inl ValueError"
proof (induction zs arbitrary: c m)
  case Nil
  then show ?case by simp
next
  case (Cons f rest)
  show ?case
  proof (cases "distance_raises fl lat lon f")
    case True
    then show ?thesis by (rule scan_features_Cons_raises)
  next
    case False
    with Cons.prems have "\<exists>z \<in> set rest. distance_raises fl lat lon z" by simp
    then show ?thesis
      using False Cons.IH
      by (simp add: scan_features_Cons del: scan_features.simps(2))
  qed
qed

lemma best_exists:
  assumes "z0 \<in> set zs" and "candidate fl lat lon m z0"
  shows "\<exists>z \<in> set zs. best_in fl lat lon m zs z"
proof -
  let ?S = "{z \<in> set zs. candidate fl lat lon m z}"
  let ?D = "zone_distance fl lat lon ` ?S"
  have fin: "finite ?D" by simp
  have ne: "?D \<noteq> {}" using assms by auto
  from Min_in [OF fin ne] obtain z where z: "z \<in> ?S" "zone_distance fl lat lon z = Min ?D"
    by auto
  have "zone_distance fl lat lon z \<le> zone_distance fl lat lon z'" if "z' \<in> ?S" for z'
    using Min_le [OF fin, of "zone_distance fl lat lon z'"] that z(2) by auto
  with z(1) show ?thesis by (auto simp: best_in_def)
qed

lemma find_best_None:
  "find (best_in fl lat lon m zs) zs = None \<longleftrightarrow> (\<forall>z \<in> set zs. \<not> candidate fl lat lon m z)"
proof
  assume "find (best_in fl lat lon m zs) zs = None"
  then have "\<forall>z \<in> set zs. \<not> best_in fl lat lon m zs z" by (simp add: find_None_iff)
  then show "\<forall>z \<in> set zs. \<not> candidate fl lat lon m z" using best_exists by blast
next
  assume "\<forall>z \<in> set zs. \<not> candidate fl lat lon m z"
  then show "find (best_in fl lat lon m zs) zs = None"
    by (auto simp: find_None_iff best_in_def)
qed

lemma candidate_trans:
  "candidate fl lat lon m f \<Longrightarrow> candidate fl lat lon (Some (zone_distance fl lat lon f)) z
     \<Longrightarrow> candidate fl lat lon m z"
  by (auto simp: candidate_def below_min_def split: option.splits)

lemma scan_features_spec:
  assumes "\<forall>z \<in> set zs. \<not> distance_raises fl lat lon z"
  shows "scan_features fl lat lon zs (c, m) =
     Inr (case find (best_in fl lat lon m zs) zs of
            None \<Rightarrow> (c, m)
          | Some z \<Rightarrow> (Some (speed_mph z), Some (zone_distance fl lat lon z)))"
  using assms
proof (induction zs arbitrary: c m)
  case Nil
  then show ?case by simp
next
  case (Cons f rest)
  let ?d = "zone_distance fl lat lon"
  from Cons.prems have ok: "\<not> distance_raises fl lat lon f"
    and rest: "\<forall>z \<in> set rest. \<not> distance_raises fl lat lon z" by simp_all
  note IH = Cons.IH [OF rest]
  note step = scan_features_Cons [OF ok]
  show ?case
  proof (cases "candidate fl lat lon m f")
    case False
    then have nf: "\<not> best_in fl lat lon m (f # rest) f" by (simp add: best_in_def)
    have "find (best_in fl lat lon m (f # rest)) rest = find (best_in fl lat lon m rest) rest"
      using False by (intro find_cong) (auto simp: best_in_def)
    with nf False show ?thesis by (simp add: step IH del: scan_features.simps(2))
  next
    case cand: True
    show ?thesis
    proof (cases "\<exists>z \<in> set rest. candidate fl lat lon (Some (?d f)) z")
      case False
      then have none: "find (best_in fl lat lon (Some (?d f)) rest) rest = None"
        by (simp add: find_best_None)
      have "?d f \<le> ?d z'" if "z' \<in> set rest" "candidate fl lat lon m z'" for z'
        using False that by (auto simp: candidate_def below_min_def)
      then have "best_in fl lat lon m (f # rest) f"
        using cand by (auto simp: best_in_def)
      with cand none show ?thesis by (simp add: step IH del: scan_features.simps(2))
    next
      case True
      then obtain z0 where z0: "z0 \<in> set rest" "candidate fl lat lon (Some (?d f)) z0" by blast
      then have z0m: "candidate fl lat lon m z0" "?d z0 < ?d f"
        using cand candidate_trans by (auto simp: candidate_def below_min_def)
      then have nf: "\<not> best_in fl lat lon m (f # rest) f"
        using z0(1) by (auto simp: best_in_def)
      have "best_in fl lat lon m (f # rest) z = best_in fl lat lon (Some (?d f)) rest z"
        if "z \<in> set rest" for z
      proof
        assume b: "best_in fl lat lon m (f # rest) z"
        then have "?d z \<le> ?d z0" using z0(1) z0m(1) by (auto simp: best_in_def)
        then have "candidate fl lat lon (Some (?d f)) z"
          using b z0m(2) by (auto simp: best_in_def candidate_def below_min_def)
        moreover have "?d z \<le> ?d z'"
          if "z' \<in> set rest" "candidate fl lat lon (Some (?d f)) z'" for z'
          using b that cand candidate_trans by (auto simp: best_in_def)
        ultimately show "best_in fl lat lon (Some (?d f)) rest z" by (auto simp: best_in_def)
      next
        assume b: "best_in fl lat lon (Some (?d f)) rest z"
        then have c: "candidate fl lat lon m z" "?d z < ?d f"
          using cand candidate_trans by (auto simp: best_in_def candidate_def below_min_def)
        moreover have "?d z \<le> ?d z'"
          if "z' \<in> set (f # rest)" "candidate fl lat lon m z'" for z'
        proof (cases "?d z' < ?d f")
          case True
          then have "z' \<in> set rest" "candidate fl lat lon (Some (?d f)) z'"
            using that by (auto simp: candidate_def below_min_def)
          then show ?thesis using b by (auto simp: best_in_def)
        next
          case False
          then show ?thesis using c(2) by simp
        qed
        ultimately show "best_in fl lat lon m (f # rest) z" by (auto simp: best_in_def)
      qed
      then have "find (best_in fl lat lon m (f # rest)) rest
                 = find (best_in fl lat lon (Some (?d f)) rest) rest"
        by (intro find_cong) auto
      moreover have "find (best_in fl lat lon (Some (?d f)) rest) rest \<noteq> None"
        using True by (simp add: find_best_None)
      ultimately show ?thesis
        using nf cand by (auto simp add: step IH simp del: scan_features.simps(2))
    qed
  qed
qed

lemma best_in_None:
  "best_in fl lat lon None zs =
     (\<lambda>z. zone_distance fl lat lon z \<le> 150
           \<and> (\<forall>z' \<in> set zs. zone_distance fl lat lon z' \<le> 150
                 \<longrightarrow> zone_distance fl lat lon z \<le> zone_distance fl lat lon z'))"
  by (auto simp: best_in_def candidate_def below_min_def MAX_DISTANCE_METERS_def)

lemma nearest_closest_zone:
  "\<forall>z \<in> set zs. \<not> distance_raises fl lat lon z \<Longrightarrow>
   nearest fl lat lon zs =
     Inr (map_option speed_mph (closest_zone fl lat lon zs),
          map_option (zone_distance fl lat lon) (closest_zone fl lat lon zs))"
  by (simp add: nearest_def scan_features_spec closest_zone_def best_in_None
      split: option.splits)

lemma nearest_raises:
  "\<exists>z \<in> set zs. distance_raises fl lat lon z \<Longrightarrow> nearest fl lat lon zs = Inl ValueError"
  by (simp add: nearest_def scan_features_raises)

lemma closest_zone_None:
  "closest_zone fl lat lon zs = None \<longleftrightarrow> (\<forall>z \<in> set zs. 150 < zone_distance fl lat lon z)"
  using find_best_None [of fl lat lon None zs]
  by (auto simp: closest_zone_def best_in_None candidate_def below_min_def
      MAX_DISTANCE_METERS_def not_le)

lemma exact_never_raises: "\<not> distance_raises exact_fpu lat lon z"
  using haversine_exact_total [of lat lon "snd (coordinates z)" "fst (coordinates z)"]
  by (auto simp: distance_raises_def)

lemma here_returns:
  "zero_laws fl \<Longrightarrow>
     \<not> distance_raises fl lat lon \<lparr>coordinates = (lon, lat), speed_mph = v\<rparr>"
  by (simp add: distance_raises_def haversine_distance_same)

lemma zone_distance_here:
  "zero_laws fl \<Longrightarrow>
     zone_distance fl lat lon \<lparr>coordinates = (lon, lat), speed_mph = v\<rparr> = 0"
  by (simp add: zone_distance_def haversine_distance_same)

lemma zone_distance_far:
  "zone_distance exact_fpu 0 0 \<lparr>coordinates = (180, 0), speed_mph = v\<rparr> = 6371000 * pi"
  by (simp add: zone_distance_def haversine_exact_half_turn)

lemma far_outside: "\<not> 6371000 * pi \<le> (150::real)"
  using pi_ge_two by simp

lemma far_raises_skewed:
  "distance_raises skewed_fpu 0 0 \<lparr>coordinates = (180, 0), speed_mph = v\<rparr>"
  by (simp add: distance_raises_def haversine_skewed_half_turn)

text \<open>
  C1: for every arithmetic, table and fix. If no distance computation of the table
  raises, the lookup returns the speed and the computed distance of the closest zone of
  the specification: there is no such zone exactly when the table is empty or every
  computed distance exceeds 150 metres; otherwise the zone is in the table, within 150
  metres, at least as near as every zone within 150 metres, and every zone before it in
  the table that is within 150 metres is strictly farther, so of two zones with equal
  computed distance the first wins. If a distance computation of the table raises, the
  lookup raises ValueError and returns nothing.
\<close>

theorem nearest_zone_lookup:
  "((\<forall>z \<in> set zs. \<not> distance_raises fl lat lon z) \<longrightarrow>
      nearest fl lat lon zs =
        Inr (map_option speed_mph (closest_zone fl lat lon zs),
             map_option (zone_distance fl lat lon) (closest_zone fl lat lon zs)))
   \<and> ((\<exists>z \<in> set zs. distance_raises fl lat lon z) \<longrightarrow>
        nearest fl lat lon zs = Inl ValueError)
   \<and> (\<not> distance_raises fl lat lon z0 \<longrightarrow>
        haversine_distance fl lat lon (snd (coordinates z0)) (fst (coordinates z0))
          = Inr (zone_distance fl lat lon z0))
   \<and> (closest_zone fl lat lon zs = None
        \<longleftrightarrow> zs = [] \<or> (\<forall>z \<in> set zs. 150 < zone_distance fl lat lon z))
   \<and> (\<forall>z. closest_zone fl lat lon zs = Some z \<longrightarrow>
         z \<in> set zs \<and> zone_distance fl lat lon z \<le> 150
         \<and> (\<forall>z' \<in> set zs. zone_distance fl lat lon z' \<le> 150
               \<longrightarrow> zone_distance fl lat lon z \<le> zone_distance fl lat lon z')
         \<and> (\<exists>i < length zs. zs ! i = z
               \<and> (\<forall>j < i. zone_distance fl lat lon (zs ! j) \<le> 150
                     \<longrightarrow> zone_distance fl lat lon z < zone_distance fl lat lon (zs ! j))))"
proof (intro conjI allI impI)
  assume "\<forall>z \<in> set zs. \<not> distance_raises fl lat lon z"
  then show "nearest fl lat lon zs =
     Inr (map_option speed_mph (closest_zone fl lat lon zs),
          map_option (zone_distance fl lat lon) (closest_zone fl lat lon zs))"
    by (rule nearest_closest_zone)
next
  assume "\<exists>z \<in> set zs. distance_raises fl lat lon z"
  then show "nearest fl lat lon zs = Inl ValueError"
    by (rule nearest_raises)
next
  assume "\<not> distance_raises fl lat lon z0"
  then show "haversine_distance fl lat lon (snd (coordinates z0)) (fst (coordinates z0))
       = Inr (zone_distance fl lat lon z0)"
    by (rule haversine_zone)
next
  show "closest_zone fl lat lon zs = None
        \<longleftrightarrow> zs = [] \<or> (\<forall>z \<in> set zs. 150 < zone_distance fl lat lon z)"
    by (auto simp: closest_zone_None)
next
  fix z
  assume cz: "closest_zone fl lat lon zs = Some z"
  let ?d = "zone_distance fl lat lon"
  let ?P = "\<lambda>z. ?d z \<le> 150 \<and> (\<forall>z' \<in> set zs. ?d z' \<le> 150 \<longrightarrow> ?d z \<le> ?d z')"
  from cz obtain i where i: "i < length zs" "?P (zs ! i)" "z = zs ! i"
    "\<forall>j < i. \<not> ?P (zs ! j)"
    unfolding closest_zone_def find_Some_iff by blast
  show "z \<in> set zs" using i by simp
  show "?d z \<le> 150" using i by simp
  show "\<forall>z' \<in> set zs. ?d z' \<le> 150 \<longrightarrow> ?d z \<le> ?d z'" using i by simp
  have "?d z < ?d (zs ! j)" if j: "j < i" "?d (zs ! j) \<le> 150" for j
  proof -
    from i(4) j obtain z' where z': "z' \<in> set zs" "?d z' \<le> 150" "?d z' < ?d (zs ! j)"
      by (auto simp: not_le)
    then have "?d z \<le> ?d z'" using i by simp
    with z'(3) show ?thesis by simp
  qed
  then show "\<exists>i < length zs. zs ! i = z \<and> (\<forall>j < i. ?d (zs ! j) \<le> 150 \<longrightarrow> ?d z < ?d (zs ! j))"
    using i by blast
qed

theorem nearest_zone_lookup_witness:
  "\<not> distance_raises exact_fpu 0 0 \<lparr>coordinates = (180, 0), speed_mph = 30\<rparr>
   \<and> \<not> distance_raises exact_fpu 0 0 \<lparr>coordinates = (0, 0), speed_mph = 60\<rparr>
   \<and> \<not> distance_raises exact_fpu 0 0 \<lparr>coordinates = (0, 0), speed_mph = 55\<rparr>
   \<and> closest_zone exact_fpu 0 0 [\<lparr>coordinates = (180, 0), speed_mph = 30\<rparr>,
                     \<lparr>coordinates = (0, 0), speed_mph = 60\<rparr>,
                     \<lparr>coordinates = (0, 0), speed_mph = 55\<rparr>]
     = Some \<lparr>coordinates = (0, 0), speed_mph = 60\<rparr>
   \<and> nearest exact_fpu 0 0 [\<lparr>coordinates = (180, 0), speed_mph = 30\<rparr>,
                  \<lparr>coordinates = (0, 0), speed_mph = 60\<rparr>,
                  \<lparr>coordinates = (0, 0), speed_mph = 55\<rparr>]
     = Inr (Some 60, Some 0)
   \<and> closest_zone exact_fpu 0 0 [\<lparr>coordinates = (180, 0), speed_mph = 30\<rparr>] = None
   \<and> nearest exact_fpu 0 0 [\<lparr>coordinates = (180, 0), speed_mph = 30\<rparr>] = Inr (None, None)
   \<and> closest_zone exact_fpu 0 0 [] = None
   \<and> nearest exact_fpu 0 0 [] = Inr (None, None)
   \<and> \<not> distance_raises skewed_fpu 0 0 \<lparr>coordinates = (0, 0), speed_mph = 55\<rparr>
   \<and> distance_raises skewed_fpu 0 0 \<lparr>coordinates = (180, 0), speed_mph = 30\<rparr>
   \<and> nearest skewed_fpu 0 0 [\<lparr>coordinates = (0, 0), speed_mph = 55\<rparr>,
                              \<lparr>coordinates = (180, 0), speed_mph = 30\<rparr>]
     = Inl ValueError"
proof -
  let ?far = "\<lparr>coordinates = (180, 0), speed_mph = 30\<rparr>"
  let ?a = "\<lparr>coordinates = (0, 0), speed_mph = 60\<rparr>"
  let ?b = "\<lparr>coordinates = (0, 0), speed_mph = 55\<rparr>"
  note here = zone_distance_here [OF zero_laws_exact]
  have c3: "closest_zone exact_fpu 0 0 [?far, ?a, ?b] = Some ?a"
    by (simp add: closest_zone_def here zone_distance_far far_outside)
  have c1: "closest_zone exact_fpu 0 0 [?far] = None"
    by (simp add: closest_zone_def zone_distance_far far_outside)
  have c0: "closest_zone exact_fpu 0 0 [] = None"
    by (simp add: closest_zone_def)
  have n3: "nearest exact_fpu 0 0 [?far, ?a, ?b] = Inr (Some 60, Some 0)"
    using nearest_zone_lookup [THEN conjunct1, of "[?far, ?a, ?b]" exact_fpu 0 0]
    by (simp add: c3 here exact_never_raises)
  have n1: "nearest exact_fpu 0 0 [?far] = Inr (None, None)"
    using nearest_zone_lookup [THEN conjunct1, of "[?far]" exact_fpu 0 0]
    by (simp add: c1 exact_never_raises)
  have n0: "nearest exact_fpu 0 0 [] = Inr (None, None)"
    using nearest_zone_lookup [THEN conjunct1, of "[]" exact_fpu 0 0] by (simp add: c0)
  have r0: "\<not> distance_raises skewed_fpu 0 0 ?b"
    by (rule here_returns [OF zero_laws_skewed])
  have r1: "distance_raises skewed_fpu 0 0 ?far"
    by (rule far_raises_skewed)
  have nr: "nearest skewed_fpu 0 0 [?b, ?far] = Inl ValueError"
    using nearest_zone_lookup [THEN conjunct2, THEN conjunct1, of "[?b, ?far]" skewed_fpu 0 0] r1
    by simp
  from exact_never_raises [of 0 0 ?far] exact_never_raises [of 0 0 ?a]
    exact_never_raises [of 0 0 ?b] c3 c1 c0 n3 n1 n0 r0 r1 nr
  show ?thesis by blast
qed

section \<open>The decision loop\<close>

lemma py_round_60: "py_round (of_int 60 * 1.60934) = 97"
  by (simp add: py_round_def Let_def)

lemma py_round_55: "py_round (of_int 55 * 1.60934) = 89"
  by (simp add: py_round_def Let_def)

lemma py_round_tie: "py_round (of_int 25000 * 1.60934) = 40234"
  by (simp add: py_round_def Let_def)

lemma py_round_nearest: "\<bar>of_int (py_round x) - x\<bar> \<le> 1 / 2"
  by (auto simp: py_round_def Let_def)

lemma nearest_at_zone:
  "zero_laws fl \<Longrightarrow>
     nearest fl lat lon [\<lparr>coordinates = (lon, lat), speed_mph = v\<rparr>] = Inr (Some v, Some 0)"
  by (simp add: nearest_def Let_def haversine_distance_same and_then_def
      MAX_DISTANCE_METERS_def below_min_def)

text \<open>
  C6: in a cycle where the tracker reports no fix the display is asked for the message
  \<open>Waiting for GPS...\<close>, and the outcome of the cycle is the same for every content of
  the zone table and every arithmetic: the table is not consulted.
\<close>

theorem no_fix_cycle:
  assumes "get_coordinates (gps_module st) = (None, None)"
  shows "\<exists>st'. loop_cycle fl st = Inr (st', ShowMessage ''Waiting for GPS...'')
           \<and> (\<forall>zs. loop_cycle fl (st\<lparr>speed_limits_data := zs\<rparr>)
                      = Inr (st'\<lparr>speed_limits_data := zs\<rparr>, ShowMessage ''Waiting for GPS...''))"
  using assms by (simp add: loop_cycle_def Let_def)

theorem no_fix_cycle_witness:
  "get_coordinates GPS_init = (None, None)
   \<and> loop_cycle exact_fpu \<lparr>current_unit_is_mph = True,
                  speed_limits_data = [\<lparr>coordinates = (0, 0), speed_mph = 60\<rparr>],
                  gps_module = GPS_init,
                  touch_toggle = \<lparr>toggle_status = True\<rparr>\<rparr>
     = Inr (\<lparr>current_unit_is_mph = False,
             speed_limits_data = [\<lparr>coordinates = (0, 0), speed_mph = 60\<rparr>],
             gps_module = GPS_init,
             touch_toggle = \<lparr>toggle_status = False\<rparr>\<rparr>,
            ShowMessage ''Waiting for GPS...'')
   \<and> get_coordinates \<lparr>latitude = None, longitude = Some 0, has_fix = True\<rparr> = (None, None)
   \<and> loop_cycle exact_fpu \<lparr>current_unit_is_mph = True,
                  speed_limits_data = [\<lparr>coordinates = (0, 0), speed_mph = 60\<rparr>],
                  gps_module = \<lparr>latitude = None, longitude = Some 0, has_fix = True\<rparr>,
                  touch_toggle = \<lparr>toggle_status = False\<rparr>\<rparr>
     = Inr (\<lparr>current_unit_is_mph = True,
             speed_limits_data = [\<lparr>coordinates = (0, 0), speed_mph = 60\<rparr>],
             gps_module = \<lparr>latitude = None, longitude = Some 0, has_fix = True\<rparr>,
             touch_toggle = \<lparr>toggle_status = False\<rparr>\<rparr>,
            ShowMessage ''Waiting for GPS...'')
   \<and> distance_raises skewed_fpu 0 0 \<lparr>coordinates = (180, 0), speed_mph = 30\<rparr>
   \<and> loop_cycle skewed_fpu \<lparr>current_unit_is_mph = True,
                  speed_limits_data = [\<lparr>coordinates = (180, 0), speed_mph = 30\<rparr>],
                  gps_module = GPS_init,
                  touch_toggle = \<lparr>toggle_status = False\<rparr>\<rparr>
     = Inr (\<lparr>current_unit_is_mph = True,
             speed_limits_data = [\<lparr>coordinates = (180, 0), speed_mph = 30\<rparr>],
             gps_module = GPS_init,
             touch_toggle = \<lparr>toggle_status = False\<rparr>\<rparr>,
            ShowMessage ''Waiting for GPS...'')"
  using
    no_fix_cycle [of "\<lparr>current_unit_is_mph = True,
                  speed_limits_data = [\<lparr>coordinates = (180, 0), speed_mph = 30\<rparr>],
                  gps_module = GPS_init,
                  touch_toggle = \<lparr>toggle_status = False\<rparr>\<rparr>" skewed_fpu]
    no_fix_cycle [of "\<lparr>current_unit_is_mph = True,
                  speed_limits_data = [\<lparr>coordinates = (0, 0), speed_mph = 60\<rparr>],
                  gps_module = GPS_init,
                  touch_toggle = \<lparr>toggle_status = True\<rparr>\<rparr>" exact_fpu]
    no_fix_cycle [of "\<lparr>current_unit_is_mph = True,
                  speed_limits_data = [\<lparr>coordinates = (0, 0), speed_mph = 60\<rparr>],
                  gps_module = \<lparr>latitude = None, longitude = Some 0, has_fix = True\<rparr>,
                  touch_toggle = \<lparr>toggle_status = False\<rparr>\<rparr>" exact_fpu]
  by (simp add: loop_cycle_def get_coordinates_def GPS_init_def get_toggle_status_def
      reset_toggle_status_def far_raises_skewed Let_def)

text \<open>
  C7: when a zone is found, the value shown is the stored speed_mph with unit MPH if the
  current unit is MPH, and \<open>round(speed_mph * 1.60934)\<close> with unit KPH otherwise; the
  current unit is the one in force after this cycle's toggle. 60 mph shows as 97, 55 mph
  as 89.
\<close>

theorem display_value:
  assumes "get_coordinates (gps_module st) = (Some lat, Some lon)"
    and "nearest fl lat lon (speed_limits_data st) = Inr (Some mph, m)"
  shows "(\<exists>st'. loop_cycle fl st =
            Inr (st', if current_unit_is_mph st' then ShowSpeedLimit mph ''MPH''
                      else ShowSpeedLimit (py_round (of_int mph * 1.60934)) ''KPH'')
           \<and> current_unit_is_mph st' =
               (if get_toggle_status (touch_toggle st) then \<not> current_unit_is_mph st
                else current_unit_is_mph st))
         \<and> py_round (of_int 60 * 1.60934) = 97 \<and> py_round (of_int 55 * 1.60934) = 89"
proof (intro conjI)
  show "\<exists>st'. loop_cycle fl st =
            Inr (st', if current_unit_is_mph st' then ShowSpeedLimit mph ''MPH''
                      else ShowSpeedLimit (py_round (of_int mph * 1.60934)) ''KPH'')
           \<and> current_unit_is_mph st' =
               (if get_toggle_status (touch_toggle st) then \<not> current_unit_is_mph st
                else current_unit_is_mph st)"
    using assms by (simp add: loop_cycle_def Let_def and_then_def)
  show "py_round (of_int 60 * 1.60934) = 97" by (rule py_round_60)
  show "py_round (of_int 55 * 1.60934) = 89" by (rule py_round_55)
qed

theorem display_value_witness:
  "get_coordinates \<lparr>latitude = Some 40, longitude = Some (- 75), has_fix = True\<rparr>
     = (Some 40, Some (- 75))
   \<and> nearest exact_fpu 40 (- 75) [\<lparr>coordinates = (- 75, 40), speed_mph = 60\<rparr>] = Inr (Some 60, Some 0)
   \<and> loop_cycle exact_fpu \<lparr>current_unit_is_mph = False,
                  speed_limits_data = [\<lparr>coordinates = (- 75, 40), speed_mph = 60\<rparr>],
                  gps_module = \<lparr>latitude = Some 40, longitude = Some (- 75), has_fix = True\<rparr>,
                  touch_toggle = \<lparr>toggle_status = False\<rparr>\<rparr>
     = Inr (\<lparr>current_unit_is_mph = False,
             speed_limits_data = [\<lparr>coordinates = (- 75, 40), speed_mph = 60\<rparr>],
             gps_module = \<lparr>latitude = Some 40, longitude = Some (- 75), has_fix = True\<rparr>,
             touch_toggle = \<lparr>toggle_status = False\<rparr>\<rparr>,
            ShowSpeedLimit 97 ''KPH'')
   \<and> loop_cycle exact_fpu \<lparr>current_unit_is_mph = True,
                  speed_limits_data = [\<lparr>coordinates = (- 75, 40), speed_mph = 55\<rparr>],
                  gps_module = \<lparr>latitude = Some 40, longitude = Some (- 75), has_fix = True\<rparr>,
                  touch_toggle = \<lparr>toggle_status = True\<rparr>\<rparr>
     = Inr (\<lparr>current_unit_is_mph = False,
             speed_limits_data = [\<lparr>coordinates = (- 75, 40), speed_mph = 55\<rparr>],
             gps_module = \<lparr>latitude = Some 40, longitude = Some (- 75), has_fix = True\<rparr>,
             touch_toggle = \<lparr>toggle_status = False\<rparr>\<rparr>,
            ShowSpeedLimit 89 ''KPH'')
   \<and> loop_cycle exact_fpu \<lparr>current_unit_is_mph = True,
                  speed_limits_data = [\<lparr>coordinates = (- 75, 40), speed_mph = 55\<rparr>],
                  gps_module = \<lparr>latitude = Some 40, longitude = Some (- 75), has_fix = True\<rparr>,
                  touch_toggle = \<lparr>toggle_status = False\<rparr>\<rparr>
     = Inr (\<lparr>current_unit_is_mph = True,
             speed_limits_data = [\<lparr>coordinates = (- 75, 40), speed_mph = 55\<rparr>],
             gps_module = \<lparr>latitude = Some 40, longitude = Some (- 75), has_fix = True\<rparr>,
             touch_toggle = \<lparr>toggle_status = False\<rparr>\<rparr>,
            ShowSpeedLimit 55 ''MPH'')"
  using
    display_value [of "\<lparr>current_unit_is_mph = False,
                  speed_limits_data = [\<lparr>coordinates = (- 75, 40), speed_mph = 60\<rparr>],
                  gps_module = \<lparr>latitude = Some 40, longitude = Some (- 75), has_fix = True\<rparr>,
                  touch_toggle = \<lparr>toggle_status = False\<rparr>\<rparr>" 40 "- 75" exact_fpu 60 "Some 0"]
    display_value [of "\<lparr>current_unit_is_mph = True,
                  speed_limits_data = [\<lparr>coordinates = (- 75, 40), speed_mph = 55\<rparr>],
                  gps_module = \<lparr>latitude = Some 40, longitude = Some (- 75), has_fix = True\<rparr>,
                  touch_toggle = \<lparr>toggle_status = True\<rparr>\<rparr>" 40 "- 75" exact_fpu 55 "Some 0"]
    display_value [of "\<lparr>current_unit_is_mph = True,
                  speed_limits_data = [\<lparr>coordinates = (- 75, 40), speed_mph = 55\<rparr>],
                  gps_module = \<lparr>latitude = Some 40, longitude = Some (- 75), has_fix = True\<rparr>,
                  touch_toggle = \<lparr>toggle_status = False\<rparr>\<rparr>" 40 "- 75" exact_fpu 55 "Some 0"]
  by (simp add: loop_cycle_def get_coordinates_def get_toggle_status_def
      reset_toggle_status_def nearest_at_zone [OF zero_laws_exact] and_then_def
      py_round_def Let_def)

end
